theory Spec2Isabelle
  imports Main
begin

section \<open>The list-instances command of sf-aws-connect\<close>

text \<open>
  The development embeds \<^verbatim>\<open>src/commands/aws-connect/list-instances.ts\<close>: the class
  \<^verbatim>\<open>ListInstances\<close> with its methods \<^verbatim>\<open>run\<close> and \<^verbatim>\<open>listInstances\<close>.
  Everything the two methods do beyond computing a value is explicit: what they write
  and which collaborator they call is a trace of events, and what they throw is the
  left summand of their result.
\<close>

subsection \<open>JavaScript values of type \<^verbatim>\<open>string | undefined\<close>\<close>

text \<open>
  A flag value is a string or \<^verbatim>\<open>undefined\<close> (\<open>None\<close>). Such a value is truthy when it
  is a string that is not empty. \<^verbatim>\<open>x || y\<close> and \<^verbatim>\<open>x && y\<close> return one of their
  operands.
\<close>

definition truthy :: "string option \<Rightarrow> bool" where
  "truthy v = (case v of None \<Rightarrow> False | Some s \<Rightarrow> s \<noteq> [])"

definition js_or :: "string option \<Rightarrow> string option \<Rightarrow> string option" where
  "js_or x y = (if truthy x then x else y)"

definition js_and :: "string option \<Rightarrow> string option \<Rightarrow> string option" where
  "js_and x y = (if truthy x then y else x)"

subsection \<open>Flags and the credential record\<close>

text \<open>
  The object \<^verbatim>\<open>flags\<close> that \<^verbatim>\<open>this.parse(ListInstances)\<close> resolves to is a map from
  property names to strings; reading a property it does not have gives
  \<^verbatim>\<open>undefined\<close>. Its properties are among the flags that \<^verbatim>\<open>static override flags\<close>
  declares.
\<close>

type_synonym flags = "string \<rightharpoonup> string"

definition flagNames :: "string list" where
  "flagNames = [''profile'', ''region'', ''accessKeyId'', ''secretAccessKey'',
     ''secretSessionToken'']"

definition parsed :: "flags \<Rightarrow> bool" where
  "parsed flags = (dom flags \<subseteq> set flagNames)"

datatype TAuthMethod = sso | accessKey

text \<open>
  Modelled from the spec: the type \<^verbatim>\<open>TAwsAccessFlags\<close> is imported from
  \<^verbatim>\<open>types/index.js\<close>, which is not among the sources. The fields are the ones the
  object literal in \<^verbatim>\<open>run\<close> sets, each holding the JavaScript value it is given.
\<close>

record TAwsAccessFlags =
  accessKeyId :: "string option"
  authMethod :: TAuthMethod
  profile :: "string option"
  region :: "string option"
  secretAccessKey :: "string option"
  secretSessionToken :: "string option"

text \<open>The object literal \<^verbatim>\<open>config\<close> of \<^verbatim>\<open>run\<close> (lines 47 to 54).\<close>

definition buildConfig :: "flags \<Rightarrow> TAwsAccessFlags" where
  "buildConfig flags =
     \<lparr> accessKeyId = flags ''accessKeyId'',
       authMethod = (if truthy (flags ''profile'') then sso else accessKey),
       profile = flags ''profile'',
       region = flags ''region'',
       secretAccessKey = flags ''secretAccessKey'',
       secretSessionToken = flags ''secretToken'' \<rparr>"

text \<open>The value \<^verbatim>\<open>isAuthValid\<close> of \<^verbatim>\<open>run\<close> (lines 56 and 57).\<close>

definition isAuthValid :: "TAwsAccessFlags \<Rightarrow> string option" where
  "isAuthValid config =
     js_or (profile config)
       (js_and (js_and (accessKeyId config) (secretAccessKey config))
          (secretSessionToken config))"

subsection \<open>Thrown values, results and the trace\<close>

text \<open>
  A value a collaborator throws is a standard error object (\<^verbatim>\<open>instanceof Error\<close>)
  with its \<^verbatim>\<open>name\<close> and \<^verbatim>\<open>message\<close>, or any other value.
\<close>

datatype 'x thrown = ErrorObject string string | NonError 'x

text \<open>
  \<^verbatim>\<open>this.error(message, options)\<close> throws a CLI error; the second argument of
  \<open>CLIError\<close> is the \<^verbatim>\<open>exit\<close> option as the call passes it, \<open>None\<close> when the call
  passes no option. A value thrown outside the \<^verbatim>\<open>try\<close> block leaves the command as
  it is.
\<close>

datatype 'x failure = CLIError string "nat option" | Uncaught "'x thrown"

text \<open>
  The response of the list request; \<^verbatim>\<open>InstanceSummaryList\<close> is the only field the
  command reads, and it is optional.
\<close>

record 'i ListInstancesResponse =
  InstanceSummaryList :: "'i list option"

datatype 'i event =
    GetInstance TAwsAccessFlags
  | GetConnectClient
  | Send
  | Log string
  | ConsoleLog string "'i list"

fun isCall :: "'i event \<Rightarrow> bool" where
  "isCall (GetInstance config) = True"
| "isCall GetConnectClient = True"
| "isCall Send = True"
| "isCall (Log line) = False"
| "isCall (ConsoleLog label xs) = False"

fun isOutput :: "'i event \<Rightarrow> bool" where
  "isOutput (Log line) = True"
| "isOutput (ConsoleLog label xs) = True"
| "isOutput (GetInstance config) = False"
| "isOutput GetConnectClient = False"
| "isOutput Send = False"

text \<open>
  The collaborators: \<^verbatim>\<open>AwsService.getInstance\<close>, \<^verbatim>\<open>awsService.getConnectClient\<close>
  and \<^verbatim>\<open>connectClient.send\<close>, each returning its result or the value it throws.
  The service and client handles are opaque (\<open>'s\<close>, \<open>'c\<close>), as is an instance
  summary (\<open>'i\<close>).
\<close>

record ('s, 'c, 'i, 'x) collaborators =
  getInstance :: "TAwsAccessFlags \<Rightarrow> 'x thrown + 's"
  getConnectClient :: "'s \<Rightarrow> 'x thrown + 'c"
  send :: "'c \<Rightarrow> 'x thrown + 'i ListInstancesResponse"

subsection \<open>The two methods\<close>

text \<open>The \<^verbatim>\<open>catch\<close> block of \<^verbatim>\<open>listInstances\<close> (lines 81 to 90).\<close>

definition catchBlock :: "'x thrown \<Rightarrow> 'x failure + unit" where
  "catchBlock error =
     (case error of
        ErrorObject name message \<Rightarrow>
          if name = ''UnrecognizedClientException''
          then Inl (CLIError
                 ''Authentication Error: Please check your AWS credentials and region.''
                 None)
          else Inl (CLIError (''Error listing Amazon Connect instances: '' @ message) None)
      | NonError v \<Rightarrow> Inr ())"

definition listInstances ::
  "('s, 'c, 'i, 'x) collaborators \<Rightarrow> TAwsAccessFlags \<Rightarrow> 'i event list \<times> ('x failure + unit)"
where
  "listInstances aws config =
     (case getInstance aws config of
        Inl error \<Rightarrow> ([GetInstance config], Inl (Uncaught error))
      | Inr awsService \<Rightarrow>
          (case getConnectClient aws awsService of
             Inl error \<Rightarrow> ([GetInstance config, GetConnectClient], catchBlock error)
           | Inr connectClient \<Rightarrow>
               (case send aws connectClient of
                  Inl error \<Rightarrow>
                    ([GetInstance config, GetConnectClient, Send], catchBlock error)
                | Inr response \<Rightarrow>
                    (case InstanceSummaryList response of
                       None \<Rightarrow>
                         ([GetInstance config, GetConnectClient, Send,
                           Log ''No Amazon Connect instances found.''], Inr ())
                     | Some xs \<Rightarrow>
                         if length xs = 0
                         then ([GetInstance config, GetConnectClient, Send,
                                Log ''No Amazon Connect instances found.''], Inr ())
                         else ([GetInstance config, GetConnectClient, Send,
                                ConsoleLog ''Instances:'' xs], Inr ())))))"

definition authRequired :: string where
  "authRequired = ''Auth is required: either AWS profile or access key credentials (accessKeyId, secretAccessKey and secretSessionToken) must be provided.''"

definition run ::
  "('s, 'c, 'i, 'x) collaborators \<Rightarrow> flags \<Rightarrow> 'i event list \<times> ('x failure + unit)"
where
  "run aws flags =
     (let config = buildConfig flags in
      if \<not> truthy (isAuthValid config)
      then ([], Inl (CLIError authRequired (Some 1)))
      else listInstances aws config)"

subsection \<open>The exit status\<close>

text \<open>
  The command does not end the process itself: the oclif runtime does, from the way
  \<^verbatim>\<open>run\<close> ends. A CLI error that carries an \<^verbatim>\<open>exit\<close> option ends it with that
  status. For a CLI error raised with no \<^verbatim>\<open>exit\<close> option, and for any other value
  that leaves \<^verbatim>\<open>run\<close>, the status is the runtime's choice, a parameter here.
\<close>

record runtime =
  errorExit :: nat
  uncaughtExit :: nat

fun exitStatus :: "runtime \<Rightarrow> 'x failure + unit \<Rightarrow> nat" where
  "exitStatus rt (Inr u) = 0"
| "exitStatus rt (Inl (CLIError message (Some n))) = n"
| "exitStatus rt (Inl (CLIError message None)) = errorExit rt"
| "exitStatus rt (Inl (Uncaught error)) = uncaughtExit rt"

text \<open>
  The statuses of oclif: a CLI error built with no \<^verbatim>\<open>exit\<close> option gets the status
  2, and a value that is not a CLI error ends the process with the status 1.
\<close>

definition oclif :: runtime where
  "oclif = \<lparr> errorExit = 2, uncaughtExit = 1 \<rparr>"

subsection \<open>Test doubles\<close>

text \<open>
  A service whose factory and client set-up succeed and whose list request ends the
  way given; and three flag sets.
\<close>

definition stubAws ::
  "string thrown + nat ListInstancesResponse \<Rightarrow> (unit, unit, nat, string) collaborators"
where
  "stubAws r =
     \<lparr> getInstance = (\<lambda>config. Inr ()),
       getConnectClient = (\<lambda>awsService. Inr ()),
       send = (\<lambda>connectClient. r) \<rparr>"

definition devFlags :: flags where
  "devFlags = [''profile'' \<mapsto> ''dev'', ''region'' \<mapsto> ''ap-southeast-2'']"

definition keyFlags :: flags where
  "keyFlags = [''accessKeyId'' \<mapsto> ''A'', ''secretAccessKey'' \<mapsto> ''B'',
     ''secretSessionToken'' \<mapsto> ''C'', ''region'' \<mapsto> ''ap-southeast-2'']"

definition regionFlags :: flags where
  "regionFlags = [''region'' \<mapsto> ''ap-southeast-2'']"

definition rejectedResult :: "string thrown + nat ListInstancesResponse" where
  "rejectedResult = Inl (ErrorObject ''UnrecognizedClientException'' ''bad token'')"

definition timeoutResult :: "string thrown + nat ListInstancesResponse" where
  "timeoutResult = Inl (ErrorObject ''Error'' ''timeout'')"

section \<open>Properties\<close>

subsection \<open>Helper facts\<close>

lemma truthy_js_or: "truthy (js_or x y) = (truthy x \<or> truthy y)"
  by (simp add: js_or_def)

lemma truthy_js_and: "truthy (js_and x y) = (truthy x \<and> truthy y)"
  by (auto simp: js_and_def)

lemma truthy_Some: "truthy (Some s) = (s \<noteq> [])"
  by (simp add: truthy_def)

lemma truthy_None: "truthy None = False"
  by (simp add: truthy_def)

lemma secretToken_undefined: "parsed flags \<Longrightarrow> flags ''secretToken'' = None"
proof -
  assume p: "parsed flags"
  have "''secretToken'' \<notin> set flagNames"
    by (simp add: flagNames_def)
  with p have "''secretToken'' \<notin> dom flags"
    unfolding parsed_def by blast
  then show ?thesis
    by (simp add: domIff)
qed

lemma isAuthValid_buildConfig:
  "parsed flags \<Longrightarrow> truthy (isAuthValid (buildConfig flags)) = truthy (flags ''profile'')"
  by (simp add: isAuthValid_def buildConfig_def truthy_js_or truthy_js_and
      secretToken_undefined truthy_None)

lemma run_profile:
  "truthy (flags ''profile'') \<Longrightarrow> run aws flags = listInstances aws (buildConfig flags)"
  by (simp add: run_def Let_def isAuthValid_def truthy_js_or buildConfig_def)

lemma parsed_devFlags: "parsed devFlags"
  by (simp add: parsed_def devFlags_def flagNames_def)

lemma parsed_keyFlags: "parsed keyFlags"
  by (simp add: parsed_def keyFlags_def flagNames_def)

lemma parsed_regionFlags: "parsed regionFlags"
  by (simp add: parsed_def regionFlags_def flagNames_def)


subsection \<open>Building and validating the credential record\<close>

text \<open>
  C1. The claim: with \<^verbatim>\<open>accessKeyId="A"\<close>, \<^verbatim>\<open>secretAccessKey="B"\<close>,
  \<^verbatim>\<open>secretSessionToken="C"\<close> and no profile the record passes validation and the
  command goes on to the list request. The code does otherwise: \<^verbatim>\<open>run\<close> fills
  \<^verbatim>\<open>secretSessionToken\<close> from \<^verbatim>\<open>flags.secretToken\<close>, a property no flag defines,
  so on these flags the record has no session token, validation fails, and the command
  ends with the configuration error before any collaborator is called.
\<close>

theorem run_keyFlags_configuration_error:
  "authMethod (buildConfig keyFlags) = accessKey
   \<and> secretSessionToken (buildConfig keyFlags) = None
   \<and> \<not> truthy (isAuthValid (buildConfig keyFlags))
   \<and> run aws keyFlags = ([], Inl (CLIError authRequired (Some 1)))"
  by (simp add: run_def isAuthValid_buildConfig [OF parsed_keyFlags] Let_def)
     (simp add: buildConfig_def keyFlags_def truthy_def)

text \<open>
  C2. For every parsed flag set the record built by \<^verbatim>\<open>run\<close> has
  \<^verbatim>\<open>secretSessionToken\<close> undefined, whatever value the flag
  \<^verbatim>\<open>--secretSessionToken\<close> has; so validation succeeds exactly when the profile is a
  non-empty string, and the access-key branch of the disjunction is never truthy.
\<close>

theorem buildConfig_secretSessionToken_undefined:
  assumes "parsed flags"
  shows "secretSessionToken (buildConfig flags) = None
    \<and> secretSessionToken (buildConfig (flags(''secretSessionToken'' \<mapsto> v))) = None
    \<and> truthy (isAuthValid (buildConfig flags)) = truthy (flags ''profile'')
    \<and> \<not> truthy (js_and (js_and (accessKeyId (buildConfig flags))
                              (secretAccessKey (buildConfig flags)))
                      (secretSessionToken (buildConfig flags)))"
proof -
  have undef: "flags ''secretToken'' = None"
    using assms by (rule secretToken_undefined)
  have a: "secretSessionToken (buildConfig flags) = None"
    by (simp add: buildConfig_def undef)
  have b: "secretSessionToken (buildConfig (flags(''secretSessionToken'' \<mapsto> v))) = None"
    by (simp add: buildConfig_def undef)
  have c: "truthy (isAuthValid (buildConfig flags)) = truthy (flags ''profile'')"
    using assms by (rule isAuthValid_buildConfig)
  have d: "\<not> truthy (js_and (js_and (accessKeyId (buildConfig flags))
                              (secretAccessKey (buildConfig flags)))
                      (secretSessionToken (buildConfig flags)))"
    by (simp add: truthy_js_and a truthy_None)
  from a b c d show ?thesis by blast
qed

theorem buildConfig_secretSessionToken_undefined_witness:
  "parsed keyFlags
   \<and> keyFlags ''secretSessionToken'' = Some ''C''
   \<and> secretSessionToken (buildConfig keyFlags) = None
   \<and> secretSessionToken (buildConfig (keyFlags(''secretSessionToken'' \<mapsto> ''Z''))) = None
   \<and> \<not> truthy (isAuthValid (buildConfig keyFlags))"
proof -
  have "keyFlags ''secretSessionToken'' = Some ''C''"
    by (simp add: keyFlags_def)
  moreover have "\<not> truthy (keyFlags ''profile'')"
    by (simp add: keyFlags_def truthy_def)
  ultimately show ?thesis
    using buildConfig_secretSessionToken_undefined [OF parsed_keyFlags, of "''Z''"]
      parsed_keyFlags
    by simp
qed

text \<open>
  C3. For every parsed flag set in which neither the profile is non-empty nor all three
  of \<^verbatim>\<open>accessKeyId\<close>, \<^verbatim>\<open>secretAccessKey\<close>, \<^verbatim>\<open>secretSessionToken\<close> are non-empty,
  the command raises the configuration error with exit status 1 (so not zero) and calls
  no collaborator: the service is not asked for, the client is not obtained, no list
  request is sent.
\<close>

theorem run_invalid_auth:
  assumes "parsed flags"
    and "\<not> (truthy (flags ''profile'')
            \<or> (truthy (flags ''accessKeyId'') \<and> truthy (flags ''secretAccessKey'')
               \<and> truthy (flags ''secretSessionToken'')))"
  shows "run aws flags = ([], Inl (CLIError authRequired (Some 1)))
    \<and> exitStatus rt (snd (run aws flags)) = 1
    \<and> exitStatus rt (snd (run aws flags)) \<noteq> 0
    \<and> filter isCall (fst (run aws flags)) = []"
proof -
  from assms(2) have "\<not> truthy (flags ''profile'')" by blast
  with assms(1) have "\<not> truthy (isAuthValid (buildConfig flags))"
    by (simp add: isAuthValid_buildConfig)
  then have "run aws flags = ([], Inl (CLIError authRequired (Some 1)))"
    by (simp add: run_def Let_def)
  then show ?thesis by simp
qed

theorem run_invalid_auth_witness:
  "parsed regionFlags
   \<and> \<not> truthy (regionFlags ''profile'')
   \<and> run (stubAws (Inr \<lparr> InstanceSummaryList = Some [7] \<rparr>)) regionFlags
       = ([], Inl (CLIError authRequired (Some 1)))
   \<and> exitStatus oclif
       (snd (run (stubAws (Inr \<lparr> InstanceSummaryList = Some [7] \<rparr>)) regionFlags)) = 1"
proof -
  have h: "\<not> (truthy (regionFlags ''profile'')
            \<or> (truthy (regionFlags ''accessKeyId'') \<and> truthy (regionFlags ''secretAccessKey'')
               \<and> truthy (regionFlags ''secretSessionToken'')))"
    by (simp add: regionFlags_def truthy_def)
  then have "\<not> truthy (regionFlags ''profile'')" by blast
  then show ?thesis
    using run_invalid_auth [OF parsed_regionFlags h,
        of "stubAws (Inr \<lparr> InstanceSummaryList = Some [7] \<rparr>)" oclif]
      parsed_regionFlags
    by simp
qed

text \<open>
  C4. The field \<^verbatim>\<open>authMethod\<close> depends on the profile alone: it is \<^verbatim>\<open>sso\<close> when the
  profile is present, which the code tests as \<^verbatim>\<open>flags.profile ? ... : ...\<close> (a string
  that is not empty), and \<^verbatim>\<open>accessKey\<close> otherwise. With \<^verbatim>\<open>profile="dev"\<close> and no
  access-key flags the record is accepted with \<^verbatim>\<open>authMethod="sso"\<close>, and the command
  goes on to \<^verbatim>\<open>listInstances\<close>.
\<close>

theorem authMethod_from_profile:
  "authMethod (buildConfig flags) = (if truthy (flags ''profile'') then sso else accessKey)
   \<and> (flags ''profile'' = flags' ''profile''
        \<longrightarrow> authMethod (buildConfig flags) = authMethod (buildConfig flags'))
   \<and> truthy (isAuthValid (buildConfig devFlags))
   \<and> authMethod (buildConfig devFlags) = sso
   \<and> run aws devFlags = listInstances aws (buildConfig devFlags)"
proof -
  have a: "authMethod (buildConfig f) = (if truthy (f ''profile'') then sso else accessKey)"
    for f :: flags
    by (simp add: buildConfig_def)
  have p: "truthy (devFlags ''profile'')"
    by (simp add: devFlags_def truthy_def)
  have v: "truthy (isAuthValid (buildConfig devFlags))"
    using p by (simp add: isAuthValid_buildConfig [OF parsed_devFlags])
  have r: "run aws devFlags = listInstances aws (buildConfig devFlags)"
    using v by (simp add: run_def Let_def)
  from a [of flags] a [of flags'] a [of devFlags] p v r show ?thesis by simp
qed

theorem authMethod_from_profile_witness:
  "authMethod (buildConfig devFlags) = sso
   \<and> authMethod (buildConfig (devFlags(''accessKeyId'' \<mapsto> ''A''))) = sso
   \<and> authMethod (buildConfig regionFlags) = accessKey"
proof -
  have n: "\<not> truthy (regionFlags ''profile'')"
    by (simp add: regionFlags_def truthy_def)
  have s: "authMethod (buildConfig devFlags) = sso"
    and i: "devFlags ''profile'' = (devFlags(''accessKeyId'' \<mapsto> ''A'')) ''profile''
        \<longrightarrow> authMethod (buildConfig devFlags)
          = authMethod (buildConfig (devFlags(''accessKeyId'' \<mapsto> ''A'')))"
    using authMethod_from_profile [of devFlags "devFlags(''accessKeyId'' \<mapsto> ''A'')"
        "stubAws rejectedResult"]
    by blast+
  have "authMethod (buildConfig (devFlags(''accessKeyId'' \<mapsto> ''A''))) = sso"
    using i s by simp
  moreover have "authMethod (buildConfig regionFlags) = accessKey"
    using authMethod_from_profile [of regionFlags regionFlags "stubAws rejectedResult"] n
    by simp
  ultimately show ?thesis using s by simp
qed

subsection \<open>A list request that throws\<close>

text \<open>
  What \<^verbatim>\<open>listInstances\<close> does once the service and the client are there and the
  list request has thrown: the three calls are in the trace and the \<^verbatim>\<open>catch\<close>
  block decides the result.
\<close>

lemma listInstances_send_throws:
  assumes "getInstance aws config = Inr awsService"
    and "getConnectClient aws awsService = Inr connectClient"
    and "send aws connectClient = Inl error"
  shows "listInstances aws config
    = ([GetInstance config, GetConnectClient, Send], catchBlock error)"
  using assms by (simp add: listInstances_def)

lemma listInstances_send_returns:
  assumes "getInstance aws config = Inr awsService"
    and "getConnectClient aws awsService = Inr connectClient"
    and "send aws connectClient = Inr response"
  shows "listInstances aws config
    = (case InstanceSummaryList response of
         None \<Rightarrow>
           ([GetInstance config, GetConnectClient, Send,
             Log ''No Amazon Connect instances found.''], Inr ())
       | Some xs \<Rightarrow>
           if length xs = 0
           then ([GetInstance config, GetConnectClient, Send,
                  Log ''No Amazon Connect instances found.''], Inr ())
           else ([GetInstance config, GetConnectClient, Send,
                  ConsoleLog ''Instances:'' xs], Inr ()))"
  using assms by (simp add: listInstances_def)

lemma stubAws_simps:
  "getInstance (stubAws r) config = Inr ()"
  "getConnectClient (stubAws r) awsService = Inr ()"
  "send (stubAws r) connectClient = r"
  by (simp_all add: stubAws_def)

text \<open>
  What the \<^verbatim>\<open>catch\<close> block makes of a standard error object, for every input:
  the authentication message for the name \<^verbatim>\<open>UnrecognizedClientException\<close>, the
  listing message with the text of the error for any other name, and in both cases a
  call of \<^verbatim>\<open>this.error\<close> that passes no \<^verbatim>\<open>exit\<close> option, so that the exit
  status is the one the runtime gives to such an error.
\<close>

lemma listInstances_authentication_error:
  assumes "getInstance aws config = Inr awsService"
    and "getConnectClient aws awsService = Inr connectClient"
    and "send aws connectClient = Inl (ErrorObject ''UnrecognizedClientException'' message)"
  shows "listInstances aws config
      = ([GetInstance config, GetConnectClient, Send],
         Inl (CLIError
           ''Authentication Error: Please check your AWS credentials and region.'' None))
    \<and> snd (listInstances aws config)
      \<noteq> Inl (CLIError (''Error listing Amazon Connect instances: '' @ message) None)
    \<and> exitStatus rt (snd (listInstances aws config)) = errorExit rt"
  by (simp add: listInstances_send_throws [OF assms] catchBlock_def)

lemma listInstances_listing_error:
  assumes "getInstance aws config = Inr awsService"
    and "getConnectClient aws awsService = Inr connectClient"
    and "send aws connectClient = Inl (ErrorObject name message)"
    and "name \<noteq> ''UnrecognizedClientException''"
  shows "listInstances aws config
      = ([GetInstance config, GetConnectClient, Send],
         Inl (CLIError (''Error listing Amazon Connect instances: '' @ message) None))
    \<and> exitStatus rt (snd (listInstances aws config)) = errorExit rt"
  using assms(4)
  by (simp add: listInstances_send_throws [OF assms(1-3)] catchBlock_def)

lemma truthy_devFlags_profile: "truthy (devFlags ''profile'')"
  by (simp add: devFlags_def truthy_def)

lemma run_regionFlags:
  "run aws regionFlags = ([], Inl (CLIError authRequired (Some 1)))"
  by (simp add: run_def Let_def isAuthValid_buildConfig [OF parsed_regionFlags])
     (simp add: regionFlags_def truthy_def)

text \<open>
  C5. The claim: if the list request throws an error object whose name is
  \<^verbatim>\<open>UnrecognizedClientException\<close>, the command emits the authentication-error
  message, not the listing-error message, and ends with exit code 1. On the profile
  \<^verbatim>\<open>dev\<close> and a list request that throws such an error the command does emit that
  message, through \<^verbatim>\<open>this.error\<close>. But line 84 passes no \<^verbatim>\<open>exit\<close> option, where
  the configuration error of line 60 passes \<^verbatim>\<open>{ exit: 1 }\<close>: the error carries no
  exit status, and the process ends with whatever status the runtime gives to such an
  error, while the configuration error ends it with 1 under every runtime.
\<close>

theorem run_authentication_error_without_exit_option:
  "run (stubAws rejectedResult) devFlags
     = ([GetInstance (buildConfig devFlags), GetConnectClient, Send],
        Inl (CLIError
          ''Authentication Error: Please check your AWS credentials and region.'' None))
   \<and> snd (run (stubAws rejectedResult) devFlags)
     \<noteq> Inl (CLIError ''Authentication Error: Please check your AWS credentials and region.''
           (Some 1))
   \<and> exitStatus rt (snd (run (stubAws rejectedResult) devFlags)) = errorExit rt
   \<and> exitStatus rt (snd (run (stubAws rejectedResult) regionFlags)) = 1"
proof -
  have s: "send (stubAws rejectedResult) ()
      = Inl (ErrorObject ''UnrecognizedClientException'' ''bad token'')"
    by (simp add: stubAws_simps rejectedResult_def)
  have r: "run (stubAws rejectedResult) devFlags
      = listInstances (stubAws rejectedResult) (buildConfig devFlags)"
    using truthy_devFlags_profile by (rule run_profile)
  have l: "listInstances (stubAws rejectedResult) (buildConfig devFlags)
      = ([GetInstance (buildConfig devFlags), GetConnectClient, Send],
         Inl (CLIError
           ''Authentication Error: Please check your AWS credentials and region.'' None))"
    using listInstances_authentication_error
      [OF stubAws_simps(1) stubAws_simps(2) s, of "buildConfig devFlags" rt]
    by blast
  show ?thesis
    by (simp add: r l run_regionFlags)
qed

text \<open>
  C6. The claim: if the list request throws a standard error object with another name,
  the command emits \<^verbatim>\<open>Error listing Amazon Connect instances: \<close> followed by the
  message of the error (for \<^verbatim>\<open>timeout\<close> exactly
  \<^verbatim>\<open>Error listing Amazon Connect instances: timeout\<close>) and ends with exit code 1. On
  the profile \<^verbatim>\<open>dev\<close> and a list request that throws an error with the message
  \<^verbatim>\<open>timeout\<close> the command does emit exactly that message, through
  \<^verbatim>\<open>this.error\<close>. But line 86 passes no \<^verbatim>\<open>exit\<close> option, where the
  configuration error of line 60 passes \<^verbatim>\<open>{ exit: 1 }\<close>: the error carries no exit
  status, and the process ends with whatever status the runtime gives to such an error,
  while the configuration error ends it with 1 under every runtime.
\<close>

theorem run_listing_error_without_exit_option:
  "run (stubAws timeoutResult) devFlags
     = ([GetInstance (buildConfig devFlags), GetConnectClient, Send],
        Inl (CLIError ''Error listing Amazon Connect instances: timeout'' None))
   \<and> snd (run (stubAws timeoutResult) devFlags)
     \<noteq> Inl (CLIError ''Error listing Amazon Connect instances: timeout'' (Some 1))
   \<and> exitStatus rt (snd (run (stubAws timeoutResult) devFlags)) = errorExit rt
   \<and> exitStatus rt (snd (run (stubAws timeoutResult) regionFlags)) = 1"
proof -
  have s: "send (stubAws timeoutResult) () = Inl (ErrorObject ''Error'' ''timeout'')"
    by (simp add: stubAws_simps timeoutResult_def)
  have n: "''Error'' \<noteq> ''UnrecognizedClientException''"
    by simp
  have r: "run (stubAws timeoutResult) devFlags
      = listInstances (stubAws timeoutResult) (buildConfig devFlags)"
    using truthy_devFlags_profile by (rule run_profile)
  have l: "listInstances (stubAws timeoutResult) (buildConfig devFlags)
      = ([GetInstance (buildConfig devFlags), GetConnectClient, Send],
         Inl (CLIError (''Error listing Amazon Connect instances: '' @ ''timeout'') None))"
    using listInstances_listing_error
      [OF stubAws_simps(1) stubAws_simps(2) s n, of "buildConfig devFlags" rt]
    by blast
  show ?thesis
    by (simp add: r l run_regionFlags)
qed

text \<open>
  C7. If the list request throws a value that is not a standard error object, the
  command writes nothing, raises nothing and returns as a successful invocation does.
\<close>

theorem listInstances_non_error_swallowed:
  assumes "getInstance aws config = Inr awsService"
    and "getConnectClient aws awsService = Inr connectClient"
    and "send aws connectClient = Inl (NonError v)"
  shows "listInstances aws config = ([GetInstance config, GetConnectClient, Send], Inr ())
    \<and> filter isOutput (fst (listInstances aws config)) = []
    \<and> exitStatus rt (snd (listInstances aws config)) = 0"
  by (simp add: listInstances_send_throws [OF assms] catchBlock_def)

theorem listInstances_non_error_swallowed_witness:
  "listInstances (stubAws (Inl (NonError ''boom''))) (buildConfig devFlags)
     = ([GetInstance (buildConfig devFlags), GetConnectClient, Send], Inr ())
   \<and> exitStatus oclif
       (snd (listInstances (stubAws (Inl (NonError ''boom''))) (buildConfig devFlags))) = 0"
  using listInstances_non_error_swallowed
    [OF stubAws_simps(1) stubAws_simps(2) stubAws_simps(3),
      of "''boom''" "buildConfig devFlags" oclif]
  by simp

subsection \<open>A list request that returns\<close>

text \<open>
  C8. If the list request succeeds with an empty instance list, the command logs
  \<^verbatim>\<open>No Amazon Connect instances found.\<close>, writes nothing else (no instance list) and
  returns normally, exit status 0.
\<close>

theorem listInstances_empty_list:
  assumes "getInstance aws config = Inr awsService"
    and "getConnectClient aws awsService = Inr connectClient"
    and "send aws connectClient = Inr response"
    and "InstanceSummaryList response = Some []"
  shows "listInstances aws config
      = ([GetInstance config, GetConnectClient, Send,
          Log ''No Amazon Connect instances found.''], Inr ())
    \<and> filter isOutput (fst (listInstances aws config))
      = [Log ''No Amazon Connect instances found.'']
    \<and> exitStatus rt (snd (listInstances aws config)) = 0"
  by (simp add: listInstances_send_returns [OF assms(1-3)] assms(4))

theorem listInstances_empty_list_witness:
  "listInstances (stubAws (Inr \<lparr> InstanceSummaryList = Some [] \<rparr>)) (buildConfig devFlags)
     = ([GetInstance (buildConfig devFlags), GetConnectClient, Send,
         Log ''No Amazon Connect instances found.''], Inr ())
   \<and> exitStatus oclif
       (snd (listInstances (stubAws (Inr \<lparr> InstanceSummaryList = Some [] \<rparr>))
          (buildConfig devFlags))) = 0"
proof -
  have e: "InstanceSummaryList \<lparr> InstanceSummaryList = Some ([] :: nat list) \<rparr> = Some []"
    by simp
  show ?thesis
    using listInstances_empty_list
      [OF stubAws_simps(1) stubAws_simps(2) stubAws_simps(3) e,
        of "buildConfig devFlags" oclif]
    by simp
qed

text \<open>
  C9. If the list request succeeds with one or more instance summaries, the one thing
  the command writes is \<^verbatim>\<open>console.log('Instances:', list)\<close> with the very list of the
  response: the same elements in the same order.
\<close>

theorem listInstances_prints_response_list:
  assumes "getInstance aws config = Inr awsService"
    and "getConnectClient aws awsService = Inr connectClient"
    and "send aws connectClient = Inr response"
    and "InstanceSummaryList response = Some xs"
    and "xs \<noteq> []"
  shows "listInstances aws config
      = ([GetInstance config, GetConnectClient, Send, ConsoleLog ''Instances:'' xs], Inr ())
    \<and> filter isOutput (fst (listInstances aws config)) = [ConsoleLog ''Instances:'' xs]"
  using assms(5)
  by (simp add: listInstances_send_returns [OF assms(1-3)] assms(4))

theorem listInstances_prints_response_list_witness:
  "filter isOutput
     (fst (listInstances (stubAws (Inr \<lparr> InstanceSummaryList = Some [3, 1, 2, 1] \<rparr>))
        (buildConfig devFlags)))
     = [ConsoleLog ''Instances:'' [3, 1, 2, 1]]"
proof -
  have e: "InstanceSummaryList \<lparr> InstanceSummaryList = Some [3, 1, 2, 1 :: nat] \<rparr>
      = Some [3, 1, 2, 1]"
    by simp
  have n: "[3, 1, 2, 1 :: nat] \<noteq> []"
    by simp
  show ?thesis
    using listInstances_prints_response_list
      [OF stubAws_simps(1) stubAws_simps(2) stubAws_simps(3) e n, of "buildConfig devFlags"]
    by simp
qed

text \<open>
  C10. If the list request succeeds and the response has no \<^verbatim>\<open>InstanceSummaryList\<close>
  at all, the command does what it does for an empty list: it logs
  \<^verbatim>\<open>No Amazon Connect instances found.\<close> and returns normally.
\<close>

theorem listInstances_absent_list:
  assumes "getInstance aws config = Inr awsService"
    and "getConnectClient aws awsService = Inr connectClient"
    and "send aws connectClient = Inr response"
    and "InstanceSummaryList response = None"
  shows "listInstances aws config
      = ([GetInstance config, GetConnectClient, Send,
          Log ''No Amazon Connect instances found.''], Inr ())
    \<and> listInstances aws config
      = listInstances
          (aws\<lparr> send := (\<lambda>c. Inr (response\<lparr> InstanceSummaryList := Some [] \<rparr>)) \<rparr>)
          config
    \<and> exitStatus rt (snd (listInstances aws config)) = 0"
proof -
  have a: "listInstances aws config
      = ([GetInstance config, GetConnectClient, Send,
          Log ''No Amazon Connect instances found.''], Inr ())"
    by (simp add: listInstances_send_returns [OF assms(1-3)] assms(4))
  have b: "listInstances
          (aws\<lparr> send := (\<lambda>c. Inr (response\<lparr> InstanceSummaryList := Some [] \<rparr>)) \<rparr>)
          config
      = ([GetInstance config, GetConnectClient, Send,
          Log ''No Amazon Connect instances found.''], Inr ())"
    using assms(1,2) by (simp add: listInstances_def)
  from a b show ?thesis by simp
qed

theorem listInstances_absent_list_witness:
  "listInstances (stubAws (Inr \<lparr> InstanceSummaryList = None \<rparr>)) (buildConfig devFlags)
     = ([GetInstance (buildConfig devFlags), GetConnectClient, Send,
         Log ''No Amazon Connect instances found.''], Inr ())
   \<and> listInstances (stubAws (Inr \<lparr> InstanceSummaryList = None \<rparr>)) (buildConfig devFlags)
     = listInstances (stubAws (Inr \<lparr> InstanceSummaryList = Some [] \<rparr>))
         (buildConfig devFlags)"
proof -
  have e: "InstanceSummaryList \<lparr> InstanceSummaryList = (None :: nat list option) \<rparr> = None"
    by simp
  have u: "(stubAws (Inr \<lparr> InstanceSummaryList = None \<rparr>))
        \<lparr> send := (\<lambda>c. Inr (\<lparr> InstanceSummaryList = None \<rparr>
                              \<lparr> InstanceSummaryList := Some [] \<rparr>)) \<rparr>
      = stubAws (Inr \<lparr> InstanceSummaryList = Some [] \<rparr>)"
    by (simp add: stubAws_def)
  have "listInstances (stubAws (Inr \<lparr> InstanceSummaryList = None \<rparr>))
        (buildConfig devFlags)
      = ([GetInstance (buildConfig devFlags), GetConnectClient, Send,
          Log ''No Amazon Connect instances found.''], Inr ())
    \<and> listInstances (stubAws (Inr \<lparr> InstanceSummaryList = None \<rparr>))
        (buildConfig devFlags)
      = listInstances
          ((stubAws (Inr \<lparr> InstanceSummaryList = None \<rparr>))
             \<lparr> send := (\<lambda>c. Inr (\<lparr> InstanceSummaryList = None \<rparr>
                                   \<lparr> InstanceSummaryList := Some [] \<rparr>)) \<rparr>)
          (buildConfig devFlags)"
    using listInstances_absent_list
      [OF stubAws_simps(1) stubAws_simps(2) stubAws_simps(3) e,
        of "buildConfig devFlags" oclif]
    by blast
  then show ?thesis
    unfolding u .
qed

end
